theory Spec2Isabelle
  imports Main
begin

section \<open>JSON values and the Python operations the scripts apply to them\<close>

text \<open>
  Both scripts build Python dictionaries and send or receive them as JSON. A dictionary
  literal keeps its insertion order, so an object is an association list; numbers are
  the integers the scripts and the interface use (JSON floats are not modelled).
\<close>

datatype json =
    JNull
  | JBool bool
  | JInt int
  | JStr string
  | JList "json list"
  | JObj "(string \<times> json) list"

text \<open>The Python exceptions the two scripts can meet.\<close>

datatype py_exception =
    AssertionError nat
  | KeyError string
  | TypeError
  | IndexError
  | JSONDecodeError
  | ConnectionError
  | Timeout
  | OSError
  | KeyboardInterrupt

text \<open>
  \<^verbatim>\<open>except Exception\<close> catches every exception above but
  \<^verbatim>\<open>KeyboardInterrupt\<close>, which derives from \<^verbatim>\<open>BaseException\<close> only.
\<close>

fun is_Exception :: "py_exception \<Rightarrow> bool" where
  "is_Exception KeyboardInterrupt = False"
| "is_Exception _ = True"

datatype http_request = Get string | Post string json

record http_response =
  status_code :: int
  response_text :: string

text \<open>
  The \<^verbatim>\<open>requests\<close> library: a call either raises or returns a response, and
  the server may change state.
\<close>

type_synonym 'srv transport =
  "http_request \<Rightarrow> 'srv \<Rightarrow> (py_exception + http_response) \<times> 'srv"

type_synonym exchange = "http_request \<times> (py_exception + http_response)"

section \<open>create_test_note_and_redeem.py\<close>

definition server_url :: string where
  "server_url = ''http://localhost:3048''"

definition issuer_pub_key_hex :: string where
  "issuer_pub_key_hex = ''02dada811a888cd0dc7a0a41739a3ad9b0f427741fe6ca19700cf1a51200c96bf7''"

definition recipient_pub_key_hex :: string where
  "recipient_pub_key_hex = ''032ff012ec2a75bc2007aa15c40a0aaf28bbfd98150b3d116b63a3b4c052f41631''"

text \<open>The mock signature of line 31, which its comment calls a 65-byte signature.\<close>

definition signature :: string where
  "signature = ''000102030405060708090a0b0c0d0e0f000102030405060708090a0b0c0d0e0f000102030405060708090a0b0c0d0e0f000102030405060708090a0b0c0d0e0f000102''"

definition note_data :: "int \<Rightarrow> (string \<times> json) list" where
  "note_data timestamp =
     [(''recipient_pubkey'', JStr recipient_pub_key_hex),
      (''amount'', JInt 1000),
      (''timestamp'', JInt timestamp),
      (''signature'', JStr signature),
      (''issuer_pubkey'', JStr issuer_pub_key_hex)]"

definition redemption_data :: "int \<Rightarrow> (string \<times> json) list" where
  "redemption_data timestamp =
     [(''issuer_pubkey'', JStr issuer_pub_key_hex),
      (''recipient_pubkey'', JStr recipient_pub_key_hex),
      (''amount'', JInt 500),
      (''timestamp'', JInt timestamp)]"

definition redemption_prep_data :: "int \<Rightarrow> (string \<times> json) list" where
  "redemption_prep_data timestamp =
     [(''issuer_pubkey'', JStr issuer_pub_key_hex),
      (''recipient_pubkey'', JStr recipient_pub_key_hex),
      (''amount'', JInt 500),
      (''timestamp'', JInt timestamp)]"

definition notes_url :: string where
  "notes_url = server_url @ ''/notes''"

definition get_note_url :: string where
  "get_note_url =
     server_url @ ''/notes/issuer/'' @ issuer_pub_key_hex @ ''/recipient/'' @ recipient_pub_key_hex"

definition redeem_url :: string where
  "redeem_url = server_url @ ''/redeem''"

definition prepare_url :: string where
  "prepare_url = server_url @ ''/redemption/prepare''"

text \<open>
  \<^verbatim>\<open>main\<close>, with \<^verbatim>\<open>int(time.time())\<close> as the argument
  \<open>timestamp\<close> and the HTTP library as \<open>http\<close>. The result is the log of the
  requests sent, each with what came back, and the server's final state. The script has
  no \<^verbatim>\<open>try\<close>: a request that raises ends the run there. Printing is left out.
\<close>

definition main :: "int \<Rightarrow> 'srv transport \<Rightarrow> 'srv \<Rightarrow> exchange list \<times> 'srv" where
  "main timestamp http srv =
     (let note_req = Post notes_url (JObj (note_data timestamp));
          (r1, srv1) = http note_req srv
      in case r1 of
           Inl e \<Rightarrow> ([(note_req, r1)], srv1)
         | Inr response \<Rightarrow>
             if status_code response \<in> set [200, 201] then
               (let get_req = Get get_note_url;
                    (r2, srv2) = http get_req srv1
                in case r2 of
                     Inl e \<Rightarrow> ([(note_req, r1), (get_req, r2)], srv2)
                   | Inr _ \<Rightarrow>
                       (let redeem_req = Post redeem_url (JObj (redemption_data timestamp));
                            (r3, srv3) = http redeem_req srv2
                        in ([(note_req, r1), (get_req, r2), (redeem_req, r3)], srv3)))
             else
               (let prep_req = Post prepare_url (JObj (redemption_prep_data timestamp));
                    (r2, srv2) = http prep_req srv1
                in ([(note_req, r1), (prep_req, r2)], srv2)))"

text \<open>The first request of \<^verbatim>\<open>main\<close>, line 45.\<close>

definition note_request :: "int \<Rightarrow> http_request" where
  "note_request timestamp = Post notes_url (JObj (note_data timestamp))"

text \<open>The bodies a run posted to one URL, in order.\<close>

fun posted_to :: "string \<Rightarrow> exchange list \<Rightarrow> json list" where
  "posted_to url [] = []"
| "posted_to url ((Post u b, _) # xs) = (if u = url then b # posted_to url xs else posted_to url xs)"
| "posted_to url ((Get u, _) # xs) = posted_to url xs"

text \<open>
  The field names of the external interface, as the interface description lists them
  for the note-creation input.
\<close>

definition note_creation_fields :: "string list" where
  "note_creation_fields =
     [''recipient_pubkey'', ''amount'', ''timestamp'', ''signature'', ''issuer_pubkey'']"

text \<open>The name of the optional field of a redemption request.\<close>

definition signature_field :: string where
  "signature_field = ''signature''"

section \<open>test_api.py\<close>

text \<open>
  The Python operations of the assertions, on parsed JSON. A lookup
  \<^verbatim>\<open>d[k]\<close> raises \<^verbatim>\<open>KeyError\<close> on a dictionary without the key and
  \<^verbatim>\<open>TypeError\<close> on anything that is not a dictionary (the key is a string).
  The keys of a parsed object are distinct.
\<close>

type_synonym 'a result = "py_exception + 'a"

definition and_then :: "'a result \<Rightarrow> ('a \<Rightarrow> 'b result) \<Rightarrow> 'b result" where
  "and_then r f = (case r of Inl e \<Rightarrow> Inl e | Inr x \<Rightarrow> f x)"

fun py_getitem :: "json \<Rightarrow> string \<Rightarrow> json result" where
  "py_getitem (JObj kvs) k = (case map_of kvs k of None \<Rightarrow> Inl (KeyError k) | Some v \<Rightarrow> Inr v)"
| "py_getitem _ k = Inl TypeError"

fun starts_with :: "string \<Rightarrow> string \<Rightarrow> bool" where
  "starts_with s [] = True"
| "starts_with [] (c # k) = False"
| "starts_with (d # s) (c # k) = (d = c \<and> starts_with s k)"

fun has_substring :: "string \<Rightarrow> string \<Rightarrow> bool" where
  "has_substring [] k = (k = [])"
| "has_substring (d # s) k = (starts_with (d # s) k \<or> has_substring s k)"

text \<open>
  \<^verbatim>\<open>k in v\<close>: key membership on a dictionary, element membership on a list,
  substring on a string, \<^verbatim>\<open>TypeError\<close> on the rest.
\<close>

fun py_contains :: "string \<Rightarrow> json \<Rightarrow> bool result" where
  "py_contains k (JObj kvs) = Inr (k \<in> set (map fst kvs))"
| "py_contains k (JList xs) = Inr (JStr k \<in> set xs)"
| "py_contains k (JStr s) = Inr (has_substring s k)"
| "py_contains k _ = Inl TypeError"

text \<open>\<^verbatim>\<open>v[0]\<close>.\<close>

fun py_first :: "json \<Rightarrow> json result" where
  "py_first (JList []) = Inl IndexError"
| "py_first (JList (x # xs)) = Inr x"
| "py_first (JStr []) = Inl IndexError"
| "py_first (JStr (c # s)) = Inr (JStr [c])"
| "py_first (JObj kvs) = Inl (KeyError ''0'')"
| "py_first _ = Inl TypeError"

text \<open>Truth value of a JSON value in an \<^verbatim>\<open>if\<close>.\<close>

fun py_truthy :: "json \<Rightarrow> bool" where
  "py_truthy JNull = False"
| "py_truthy (JBool b) = b"
| "py_truthy (JInt i) = (i \<noteq> 0)"
| "py_truthy (JStr s) = (s \<noteq> [])"
| "py_truthy (JList xs) = (xs \<noteq> [])"
| "py_truthy (JObj kvs) = (kvs \<noteq> [])"

text \<open>\<^verbatim>\<open>v == True\<close>: Python's \<^verbatim>\<open>True\<close> equals the integer 1.\<close>

fun py_eq_True :: "json \<Rightarrow> bool" where
  "py_eq_True (JBool b) = b"
| "py_eq_True (JInt i) = (i = 1)"
| "py_eq_True _ = False"

fun py_is_list :: "json \<Rightarrow> bool" where
  "py_is_list (JList xs) = True"
| "py_is_list _ = False"

text \<open>\<^verbatim>\<open>assert c\<close> at a line of test_api.py.\<close>

definition py_assert :: "nat \<Rightarrow> bool \<Rightarrow> unit result" where
  "py_assert line c = (if c then Inr () else Inl (AssertionError line))"

definition test_pubkey :: string where
  "test_pubkey = ''010101010101010101010101010101010101010101010101010101010101010101''"

definition reserves_url :: "string \<Rightarrow> string" where
  "reserves_url pubkey = ''http://localhost:3000/reserves/issuer/'' @ pubkey"

text \<open>
  Lines 36 to 46 of \<^verbatim>\<open>test_reserve_api\<close>: the assertions on the parsed body
  \<open>data\<close>, in the order of the source, each subscript evaluated where the source
  evaluates it.
\<close>

definition check_reserve :: "string \<Rightarrow> json \<Rightarrow> unit result" where
  "check_reserve pubkey reserve =
     and_then (py_contains ''box_id'' reserve) (\<lambda>c42.
     and_then (py_assert 42 c42) (\<lambda>_.
     and_then (py_contains ''owner_pubkey'' reserve) (\<lambda>c43.
     and_then (py_assert 43 c43) (\<lambda>_.
     and_then (py_contains ''collateral_amount'' reserve) (\<lambda>c44.
     and_then (py_assert 44 c44) (\<lambda>_.
     and_then (py_contains ''total_debt'' reserve) (\<lambda>c45.
     and_then (py_assert 45 c45) (\<lambda>_.
     and_then (py_getitem reserve ''owner_pubkey'') (\<lambda>owner.
     py_assert 46 (owner = JStr pubkey))))))))))"

definition check_response :: "string \<Rightarrow> json \<Rightarrow> unit result" where
  "check_response pubkey data =
     and_then (py_getitem data ''success'') (\<lambda>success.
     and_then (py_assert 36 (py_eq_True success)) (\<lambda>_.
     and_then (py_contains ''data'' data) (\<lambda>c37.
     and_then (py_assert 37 c37) (\<lambda>_.
     and_then (py_getitem data ''data'') (\<lambda>d38.
     and_then (py_assert 38 (py_is_list d38)) (\<lambda>_.
     and_then (py_getitem data ''data'') (\<lambda>d40.
     if py_truthy d40 then
       and_then (py_getitem data ''data'') (\<lambda>d41.
       and_then (py_first d41) (\<lambda>reserve.
       check_reserve pubkey reserve))
     else Inr ())))))))"

text \<open>
  What the calls of one run do: each either returns or raises. \<open>None\<close> is a call
  that returns. A response body that is not JSON makes \<^verbatim>\<open>response.json()\<close>
  raise.
\<close>

record test_env =
  popen_outcome :: "py_exception option"
  sleep_outcome :: "py_exception option"
  get_outcome :: "(int \<times> json option) result"
  terminate_outcome :: "py_exception option"
  wait_outcome :: "py_exception option"

text \<open>The calls that completed, in order.\<close>

datatype event =
    Spawned
  | Slept
  | Got string
  | PrintedPassed
  | PrintedFailed py_exception
  | Terminated
  | Waited

definition response_json :: "json option \<Rightarrow> json result" where
  "response_json b = (case b of None \<Rightarrow> Inl JSONDecodeError | Some v \<Rightarrow> Inr v)"

text \<open>
  The body of the \<^verbatim>\<open>try\<close> block, lines 22 to 48: the request with its
  timeout, \<^verbatim>\<open>response.json()\<close> for the print of line 32 and again for line 35,
  the assertions, and the final print.
\<close>

definition try_body :: "test_env \<Rightarrow> event list \<times> unit result" where
  "try_body env =
     (case get_outcome env of
        Inl e \<Rightarrow> ([], Inl e)
      | Inr (status, body) \<Rightarrow>
          (case and_then (response_json body) (\<lambda>_.
                and_then (response_json body) (\<lambda>data.
                check_response test_pubkey data)) of
             Inl e \<Rightarrow> ([Got (reserves_url test_pubkey)], Inl e)
           | Inr _ \<Rightarrow> ([Got (reserves_url test_pubkey), PrintedPassed], Inr ())))"

text \<open>
  \<^verbatim>\<open>test_reserve_api\<close>: \<^verbatim>\<open>Popen\<close> and \<^verbatim>\<open>time.sleep(3)\<close> stand
  before the \<^verbatim>\<open>try\<close>; \<^verbatim>\<open>except Exception\<close> prints and swallows what
  it catches; the \<^verbatim>\<open>finally\<close> block calls \<^verbatim>\<open>terminate()\<close> and then
  \<^verbatim>\<open>wait()\<close>, and an exception of its own replaces the pending one. The
  result is the completed calls and how the function ends: it returns, or an exception
  leaves it.
\<close>

definition test_reserve_api :: "test_env \<Rightarrow> event list \<times> unit result" where
  "test_reserve_api env =
     (case popen_outcome env of
        Some e \<Rightarrow> ([], Inl e)
      | None \<Rightarrow>
          (case sleep_outcome env of
             Some e \<Rightarrow> ([Spawned], Inl e)
           | None \<Rightarrow>
               (let (body_events, body_result) = try_body env;
                    (handler_events, pending) =
                      (case body_result of
                         Inr _ \<Rightarrow> ([], Inr ())
                       | Inl e \<Rightarrow>
                           if is_Exception e then ([PrintedFailed e], Inr ())
                           else ([], Inl e));
                    before = [Spawned, Slept] @ body_events @ handler_events
                in case terminate_outcome env of
                     Some e \<Rightarrow> (before, Inl e)
                   | None \<Rightarrow>
                       (case wait_outcome env of
                          Some e \<Rightarrow> (before @ [Terminated], Inl e)
                        | None \<Rightarrow> (before @ [Terminated, Waited], pending)))))"

text \<open>The child process was terminated and then waited on.\<close>

definition child_stopped :: "event list \<Rightarrow> bool" where
  "child_stopped events = (Terminated \<in> set events \<and> Waited \<in> set events)"

text \<open>
  The shape of the reserve-listing response as the interface description gives it: an
  object whose \<^verbatim>\<open>success\<close> is true and whose \<^verbatim>\<open>data\<close> is a list of
  objects, each with the four fields.
\<close>

definition reserve_fields :: "string list" where
  "reserve_fields = [''box_id'', ''owner_pubkey'', ''collateral_amount'', ''total_debt'']"

fun conforming_reserve :: "json \<Rightarrow> bool" where
  "conforming_reserve (JObj kvs) = list_all (\<lambda>k. k \<in> set (map fst kvs)) reserve_fields"
| "conforming_reserve _ = False"

fun conforming_response :: "json \<Rightarrow> bool" where
  "conforming_response (JObj kvs) =
     (map_of kvs ''success'' = Some (JBool True) \<and>
      (case map_of kvs ''data'' of
         Some (JList xs) \<Rightarrow> list_all conforming_reserve xs
       | _ \<Rightarrow> False))"
| "conforming_response _ = False"

text \<open>
  The list is empty or its first element's \<^verbatim>\<open>owner_pubkey\<close> is the requested
  key.
\<close>

fun first_owner_is :: "string \<Rightarrow> json \<Rightarrow> bool" where
  "first_owner_is pubkey (JObj kvs) =
     (case map_of kvs ''data'' of
        Some (JList []) \<Rightarrow> True
      | Some (JList (r # rs)) \<Rightarrow> py_getitem r ''owner_pubkey'' = Inr (JStr pubkey)
      | _ \<Rightarrow> False)"
| "first_owner_is pubkey _ = False"

section \<open>The note and redemption engine\<close>

text \<open>
  The server that the two scripts call is not among the source files. Its data model
  and operations are modelled from the specification, sections 3, 4 and 6. Amounts are
  non-negative integers, timestamps are unix seconds, keys and signatures are hex
  strings.
\<close>

type_synonym pubkey = string

text \<open>
  Modelled from the spec: the canonical message of a note or of a redemption is the
  encoding of (issuer, recipient, amount, timestamp). The byte format is not given, so
  the message is the tuple of the fields it encodes.
\<close>

type_synonym canonical_message = "pubkey \<times> pubkey \<times> nat \<times> int"

text \<open>
  Modelled from the spec: the Signature Verifier, \<^verbatim>\<open>verify(pubkey, message,
  signature) -> bool\<close>. The signature scheme is outside the engine: the verifier is a
  parameter of every operation that checks a signature.
\<close>

type_synonym verifier = "pubkey \<Rightarrow> canonical_message \<Rightarrow> string \<Rightarrow> bool"

text \<open>Modelled from the spec: the error taxonomy of section 7.\<close>

datatype error =
    InvalidSignature
  | DuplicateNote
  | NoteNotFound
  | InsufficientBalance
  | Unauthorized
  | InsufficientCollateral
  | MalformedKey
  | MalformedAmount

text \<open>Modelled from the spec: the Note of section 3.\<close>

record iou_note =
  issuer_pubkey :: pubkey
  recipient_pubkey :: pubkey
  original_amount :: nat
  remaining_amount :: nat
  issued_at :: int
  issuer_signature :: string

text \<open>Modelled from the spec: the Reserve of section 3.\<close>

record reserve =
  box_id :: string
  owner_pubkey :: pubkey
  collateral_amount :: nat
  total_debt :: nat

text \<open>Modelled from the spec: the RedemptionRequest of section 3.\<close>

record redemption_request =
  req_issuer_pubkey :: pubkey
  req_recipient_pubkey :: pubkey
  req_amount :: nat
  req_timestamp :: int
  authorization_signature :: "string option"

text \<open>
  Modelled from the spec: the Note Store, a keyed mapping from (issuer, recipient) to
  the note, and the Reserve Tracker, the reserve records in insertion order.
\<close>

record engine_state =
  note_store :: "pubkey \<times> pubkey \<Rightarrow> iou_note option"
  reserves :: "reserve list"

text \<open>Modelled from the spec: \<^verbatim>\<open>get_note\<close> of section 4.2.\<close>

definition get_note :: "engine_state \<Rightarrow> pubkey \<Rightarrow> pubkey \<Rightarrow> iou_note option" where
  "get_note s issuer recipient = note_store s (issuer, recipient)"

text \<open>
  Modelled from the spec: \<^verbatim>\<open>create_note\<close> of section 4.2. The preconditions
  are checked in the order the section lists them; an amount that is not positive is
  reported as \<^verbatim>\<open>MalformedAmount\<close>. The result is the state after the call and
  the note or the error.
\<close>

definition create_note ::
  "verifier \<Rightarrow> engine_state \<Rightarrow> pubkey \<Rightarrow> pubkey \<Rightarrow> nat \<Rightarrow> int \<Rightarrow> string
     \<Rightarrow> engine_state \<times> (error + iou_note)" where
  "create_note verify s issuer recipient amount timestamp sig =
     (if amount = 0 then (s, Inl MalformedAmount)
      else if get_note s issuer recipient \<noteq> None then (s, Inl DuplicateNote)
      else if \<not> verify issuer (issuer, recipient, amount, timestamp) sig
        then (s, Inl InvalidSignature)
      else
        (let n = \<lparr>issuer_pubkey = issuer, recipient_pubkey = recipient,
                  original_amount = amount, remaining_amount = amount,
                  issued_at = timestamp, issuer_signature = sig\<rparr>
         in (s\<lparr>note_store := (note_store s)((issuer, recipient) \<mapsto> n)\<rparr>, Inr n)))"

text \<open>Modelled from the spec: \<^verbatim>\<open>debit\<close> of section 4.2.\<close>

definition debit ::
  "(pubkey \<times> pubkey \<Rightarrow> iou_note option) \<Rightarrow> pubkey \<Rightarrow> pubkey \<Rightarrow> nat
     \<Rightarrow> error + ((pubkey \<times> pubkey \<Rightarrow> iou_note option) \<times> iou_note)" where
  "debit store issuer recipient amount =
     (case store (issuer, recipient) of
        None \<Rightarrow> Inl NoteNotFound
      | Some n \<Rightarrow>
          if amount > remaining_amount n then Inl InsufficientBalance
          else
            (let n' = n\<lparr>remaining_amount := remaining_amount n - amount\<rparr>
             in Inr (store((issuer, recipient) \<mapsto> n'), n')))"

text \<open>Modelled from the spec: \<^verbatim>\<open>list_reserves\<close> of section 4.3.\<close>

definition list_reserves :: "reserve list \<Rightarrow> pubkey \<Rightarrow> reserve list" where
  "list_reserves rs owner = filter (\<lambda>r. owner_pubkey r = owner) rs"

text \<open>
  Modelled from the spec: the term \<^verbatim>\<open>collateral_amount - total_debt\<close> of
  \<^verbatim>\<open>available_collateral\<close> in section 4.3, for one reserve. Amounts are
  non-negative, so a reserve whose debt has reached its collateral has nothing
  available.
\<close>

definition available :: "reserve \<Rightarrow> nat" where
  "available r = collateral_amount r - total_debt r"

text \<open>Modelled from the spec: \<^verbatim>\<open>available_collateral\<close> of section 4.3.\<close>

definition available_collateral :: "reserve list \<Rightarrow> pubkey \<Rightarrow> nat" where
  "available_collateral rs owner = sum_list (map available (list_reserves rs owner))"

text \<open>
  Modelled from the spec: the selection policy of \<^verbatim>\<open>increase_debt\<close>,
  largest-available-first as section 4.3 suggests, the earliest inserted reserve first
  among equals. The result is the position of the chosen reserve, or \<open>None\<close> when
  the owner has no reserve.
\<close>

fun pick_largest :: "pubkey \<Rightarrow> reserve list \<Rightarrow> nat option" where
  "pick_largest owner [] = None"
| "pick_largest owner (r # rs) =
     (case pick_largest owner rs of
        None \<Rightarrow> if owner_pubkey r = owner then Some 0 else None
      | Some j \<Rightarrow>
          if owner_pubkey r = owner \<and> available (rs ! j) \<le> available r then Some 0
          else Some (Suc j))"

text \<open>
  Modelled from the spec: the update that \<^verbatim>\<open>increase_debt\<close> makes to one
  Reserve, its \<^verbatim>\<open>total_debt\<close> raised by a part of the amount.
\<close>

definition add_debt :: "reserve \<Rightarrow> nat \<Rightarrow> reserve" where
  "add_debt r part = r\<lparr>total_debt := total_debt r + part\<rparr>"

text \<open>
  Modelled from the spec: the allocation of \<^verbatim>\<open>increase_debt\<close>. The chosen
  reserve takes as much of the amount as its free collateral allows, and the rest goes
  to the next choice; the allocation stops when nothing is left or no free collateral
  remains.
\<close>

function allocate :: "pubkey \<Rightarrow> nat \<Rightarrow> reserve list \<Rightarrow> reserve list" where
  "allocate owner amount rs =
     (if amount = 0 then rs
      else
        (case pick_largest owner rs of
           None \<Rightarrow> rs
         | Some i \<Rightarrow>
             (let part = min amount (available (rs ! i))
              in if part = 0 then rs
                 else allocate owner (amount - part) (rs[i := add_debt (rs ! i) part]))))"
  by pat_completeness auto
termination
  by (relation "measure (\<lambda>(owner, amount, rs). amount)") auto

declare allocate.simps [simp del]

text \<open>Modelled from the spec: \<^verbatim>\<open>increase_debt\<close> of section 4.3.\<close>

definition increase_debt :: "reserve list \<Rightarrow> pubkey \<Rightarrow> nat \<Rightarrow> error + reserve list" where
  "increase_debt rs owner amount =
     (if available_collateral rs owner < amount then Inl InsufficientCollateral
      else Inr (allocate owner amount rs))"

text \<open>
  Modelled from the spec: the redemption message of step 3 of section 4.4, the
  canonical encoding of issuer, recipient, amount and timestamp of the request.
\<close>

definition redemption_message :: "redemption_request \<Rightarrow> canonical_message" where
  "redemption_message req =
     (req_issuer_pubkey req, req_recipient_pubkey req, req_amount req, req_timestamp req)"

text \<open>
  Modelled from the spec: step 3 of section 4.4. A request authorizes the redemption
  when it carries a signature that the verifier accepts for the issuer key or for the
  recipient key.
\<close>

definition authorized :: "verifier \<Rightarrow> redemption_request \<Rightarrow> bool" where
  "authorized verify req =
     (case authorization_signature req of
        None \<Rightarrow> False
      | Some sig \<Rightarrow>
          verify (req_issuer_pubkey req) (redemption_message req) sig \<or>
          verify (req_recipient_pubkey req) (redemption_message req) sig)"

text \<open>Modelled from the spec: the receipt of step 6 of section 4.4.\<close>

record receipt =
  new_remaining_amount :: nat
  reserves_touched :: "reserve list"
  redemption_id :: canonical_message

text \<open>
  Modelled from the spec: the Reserve(s) touched of step 6, the reserves that the
  allocation changed, as they are afterwards.
\<close>

definition touched :: "reserve list \<Rightarrow> reserve list \<Rightarrow> reserve list" where
  "touched rs rs' = map snd (filter (\<lambda>(r, r'). r \<noteq> r') (zip rs rs'))"

text \<open>
  Modelled from the spec: \<^verbatim>\<open>redeem\<close> of section 4.4, its six steps in order,
  each failure returning the state it was given. The record of section 5 that detects
  a replayed request is not modelled.
\<close>

definition redeem ::
  "verifier \<Rightarrow> engine_state \<Rightarrow> redemption_request \<Rightarrow> engine_state \<times> (error + receipt)" where
  "redeem verify s req =
     (case get_note s (req_issuer_pubkey req) (req_recipient_pubkey req) of
        None \<Rightarrow> (s, Inl NoteNotFound)
      | Some n \<Rightarrow>
          if \<not> (0 < req_amount req \<and> req_amount req \<le> remaining_amount n)
            then (s, Inl InsufficientBalance)
          else if \<not> authorized verify req then (s, Inl Unauthorized)
          else if \<not> (req_amount req \<le> available_collateral (reserves s) (req_issuer_pubkey req))
            then (s, Inl InsufficientCollateral)
          else
            (case debit (note_store s) (req_issuer_pubkey req) (req_recipient_pubkey req)
                    (req_amount req) of
               Inl e \<Rightarrow> (s, Inl e)
             | Inr (store', n') \<Rightarrow>
                 (case increase_debt (reserves s) (req_issuer_pubkey req) (req_amount req) of
                    Inl e \<Rightarrow> (s, Inl e)
                  | Inr rs' \<Rightarrow>
                      (s\<lparr>note_store := store', reserves := rs'\<rparr>,
                       Inr \<lparr>new_remaining_amount = remaining_amount n',
                            reserves_touched = touched (reserves s) rs',
                            redemption_id = redemption_message req\<rparr>))))"

text \<open>
  The debt and the collateral of one owner, summed over the owner's reserves.
\<close>

definition total_debt_sum :: "reserve list \<Rightarrow> pubkey \<Rightarrow> nat" where
  "total_debt_sum rs owner = sum_list (map total_debt (list_reserves rs owner))"

definition collateral_sum :: "reserve list \<Rightarrow> pubkey \<Rightarrow> nat" where
  "collateral_sum rs owner = sum_list (map collateral_amount (list_reserves rs owner))"

text \<open>
  What one reserve may become under an allocation: it is unchanged, or only its debt
  grew, and stays within its collateral.
\<close>

definition debt_raised :: "reserve \<Rightarrow> reserve \<Rightarrow> bool" where
  "debt_raised r r' =
     (r' = r \<or>
      (\<exists>d. r' = r\<lparr>total_debt := d\<rparr> \<and> total_debt r < d \<and> d \<le> collateral_amount r))"

text \<open>
  Modelled from the spec: the committed operations of the engine, note creation and
  redemption, and a run of them in order. A rejected operation leaves the state as it
  was.
\<close>

datatype operation =
    CreateNote pubkey pubkey nat int string
  | Redeem redemption_request

fun apply_operation :: "verifier \<Rightarrow> engine_state \<Rightarrow> operation \<Rightarrow> engine_state" where
  "apply_operation verify s (CreateNote issuer recipient amount timestamp sig) =
     fst (create_note verify s issuer recipient amount timestamp sig)"
| "apply_operation verify s (Redeem req) = fst (redeem verify s req)"

definition run :: "verifier \<Rightarrow> engine_state \<Rightarrow> operation list \<Rightarrow> engine_state" where
  "run verify s ops = foldl (apply_operation verify) s ops"

text \<open>Every reserve of a list is over-collateralized.\<close>

definition reserves_ok :: "reserve list \<Rightarrow> bool" where
  "reserves_ok rs = list_all (\<lambda>r. total_debt r \<le> collateral_amount r) rs"

subsection \<open>The external interface\<close>

text \<open>
  Modelled from the spec: the status mapping of note creation in section 6, 201 for a
  created note, 409 for a duplicate, 400 for a validation or signature failure.
\<close>

definition note_creation_status :: "error + iou_note \<Rightarrow> int" where
  "note_creation_status outcome =
     (case outcome of
        Inr _ \<Rightarrow> 201
      | Inl DuplicateNote \<Rightarrow> 409
      | Inl _ \<Rightarrow> 400)"

fun json_string :: "json option \<Rightarrow> string option" where
  "json_string (Some (JStr s)) = Some s"
| "json_string _ = None"

fun json_int :: "json option \<Rightarrow> int option" where
  "json_int (Some (JInt i)) = Some i"
| "json_int _ = None"

fun json_nat :: "json option \<Rightarrow> nat option" where
  "json_nat (Some (JInt i)) = (if 0 \<le> i then Some (nat i) else None)"
| "json_nat _ = None"

text \<open>
  Modelled from the spec: the note-creation input of section 6,
  \<^verbatim>\<open>{recipient_pubkey, amount, timestamp, signature, issuer_pubkey}\<close>, read into
  the arguments of \<^verbatim>\<open>create_note\<close>: issuer, recipient, amount, timestamp,
  signature.
\<close>

fun decode_note_creation :: "json \<Rightarrow> (pubkey \<times> pubkey \<times> nat \<times> int \<times> string) option" where
  "decode_note_creation (JObj kvs) =
     (case json_string (map_of kvs ''issuer_pubkey'') of None \<Rightarrow> None | Some issuer \<Rightarrow>
      case json_string (map_of kvs ''recipient_pubkey'') of None \<Rightarrow> None | Some recipient \<Rightarrow>
      case json_nat (map_of kvs ''amount'') of None \<Rightarrow> None | Some amount \<Rightarrow>
      case json_int (map_of kvs ''timestamp'') of None \<Rightarrow> None | Some timestamp \<Rightarrow>
      case json_string (map_of kvs ''signature'') of None \<Rightarrow> None | Some sig \<Rightarrow>
        Some (issuer, recipient, amount, timestamp, sig))"
| "decode_note_creation _ = None"

text \<open>
  Modelled from the spec: the redemption input of section 6,
  \<^verbatim>\<open>{issuer_pubkey, recipient_pubkey, amount, timestamp[, signature]}\<close>, read into
  a RedemptionRequest. A body without the optional field gives a request without
  authorization signature.
\<close>

fun decode_redemption :: "json \<Rightarrow> redemption_request option" where
  "decode_redemption (JObj kvs) =
     (case json_string (map_of kvs ''issuer_pubkey'') of None \<Rightarrow> None | Some issuer \<Rightarrow>
      case json_string (map_of kvs ''recipient_pubkey'') of None \<Rightarrow> None | Some recipient \<Rightarrow>
      case json_nat (map_of kvs ''amount'') of None \<Rightarrow> None | Some amount \<Rightarrow>
      case json_int (map_of kvs ''timestamp'') of None \<Rightarrow> None | Some timestamp \<Rightarrow>
      case map_of kvs ''signature'' of
        None \<Rightarrow>
          Some \<lparr>req_issuer_pubkey = issuer, req_recipient_pubkey = recipient,
                req_amount = amount, req_timestamp = timestamp,
                authorization_signature = None\<rparr>
      | Some (JStr sig) \<Rightarrow>
          Some \<lparr>req_issuer_pubkey = issuer, req_recipient_pubkey = recipient,
                req_amount = amount, req_timestamp = timestamp,
                authorization_signature = Some sig\<rparr>
      | Some _ \<Rightarrow> None)"
| "decode_redemption _ = None"

text \<open>
  Modelled from the spec: the note-creation endpoint of section 6. The body is read
  into the arguments of \<^verbatim>\<open>create_note\<close>, the note is created, and the
  response carries the status of the outcome; a body that cannot be read is a validation
  failure, status 400. How the note or the error is written into the response text is
  not given, so it is the parameter \<open>render\<close> (\<open>None\<close> for a body that
  cannot be read).
\<close>

definition notes_endpoint ::
  "verifier \<Rightarrow> ((error + iou_note) option \<Rightarrow> string) \<Rightarrow> json \<Rightarrow> engine_state
     \<Rightarrow> (py_exception + http_response) \<times> engine_state" where
  "notes_endpoint verify render body s =
     (case decode_note_creation body of
        None \<Rightarrow> (Inr \<lparr>status_code = 400, response_text = render None\<rparr>, s)
      | Some (issuer, recipient, amount, timestamp, sig) \<Rightarrow>
          (let (s', outcome) = create_note verify s issuer recipient amount timestamp sig
           in (Inr \<lparr>status_code = note_creation_status outcome,
                    response_text = render (Some outcome)\<rparr>, s')))"

text \<open>
  Modelled from the spec: a server whose \<^verbatim>\<open>POST /notes\<close> is the
  note-creation endpoint. What it answers to every other request is the parameter
  \<open>others\<close>.
\<close>

definition spec_server ::
  "verifier \<Rightarrow> ((error + iou_note) option \<Rightarrow> string) \<Rightarrow> engine_state transport
     \<Rightarrow> engine_state transport" where
  "spec_server verify render others req s =
     (case req of
        Post u body \<Rightarrow> if u = notes_url then notes_endpoint verify render body s else others req s
      | Get u \<Rightarrow> others req s)"

text \<open>
  Modelled from the spec: the reserve listing of section 6, \<^verbatim>\<open>GET\<close> by
  \<^verbatim>\<open>issuer_pubkey\<close> returning \<^verbatim>\<open>{success: true, data: [{box_id,
  owner_pubkey, collateral_amount, total_debt}, ...]}\<close>, the list being
  \<^verbatim>\<open>list_reserves\<close> of the key.
\<close>

definition reserve_json :: "reserve \<Rightarrow> json" where
  "reserve_json r =
     JObj [(''box_id'', JStr (box_id r)),
           (''owner_pubkey'', JStr (owner_pubkey r)),
           (''collateral_amount'', JInt (int (collateral_amount r))),
           (''total_debt'', JInt (int (total_debt r)))]"

definition reserves_response :: "engine_state \<Rightarrow> pubkey \<Rightarrow> json" where
  "reserves_response s pubkey =
     JObj [(''success'', JBool True),
           (''data'', JList (map reserve_json (list_reserves (reserves s) pubkey)))]"

text \<open>The elements of the \<^verbatim>\<open>data\<close> list of a response.\<close>

fun response_data :: "json \<Rightarrow> json list" where
  "response_data (JObj kvs) = (case map_of kvs ''data'' of Some (JList xs) \<Rightarrow> xs | _ \<Rightarrow> [])"
| "response_data _ = []"

text \<open>
  An element of a listing whose \<^verbatim>\<open>total_debt\<close> does not exceed its
  \<^verbatim>\<open>collateral_amount\<close>, read as \<^verbatim>\<open>test_reserve_api\<close> reads fields.
\<close>

definition json_reserve_ok :: "json \<Rightarrow> bool" where
  "json_reserve_ok e =
     (case (py_getitem e ''total_debt'', py_getitem e ''collateral_amount'') of
        (Inr (JInt d), Inr (JInt c)) \<Rightarrow> d \<le> c
      | _ \<Rightarrow> False)"

subsection \<open>A small instance\<close>

text \<open>
  A verifier, reserves and requests on which the statements below are evaluated: a
  signature is the text \<^verbatim>\<open>signed-by-\<close> followed by the key, the issuer
  \<^verbatim>\<open>I\<close> owns two reserves and \<^verbatim>\<open>J\<close> one.
\<close>

definition toy_verify :: verifier where
  "toy_verify pubkey message sig = (sig = ''signed-by-'' @ pubkey)"

definition toy_reserves :: "reserve list" where
  "toy_reserves =
     [\<lparr>box_id = ''box1'', owner_pubkey = ''I'', collateral_amount = 300, total_debt = 0\<rparr>,
      \<lparr>box_id = ''box2'', owner_pubkey = ''I'', collateral_amount = 400, total_debt = 100\<rparr>,
      \<lparr>box_id = ''box3'', owner_pubkey = ''J'', collateral_amount = 50, total_debt = 0\<rparr>]"

definition toy_state :: engine_state where
  "toy_state = \<lparr>note_store = Map.empty, reserves = toy_reserves\<rparr>"

definition bare_state :: engine_state where
  "bare_state = \<lparr>note_store = Map.empty, reserves = []\<rparr>"

definition toy_redemption :: "string option \<Rightarrow> redemption_request" where
  "toy_redemption sig =
     \<lparr>req_issuer_pubkey = ''I'', req_recipient_pubkey = ''R'', req_amount = 500,
      req_timestamp = 7, authorization_signature = sig\<rparr>"

text \<open>
  The state after the issuer \<^verbatim>\<open>I\<close> created a note of 1000 for
  \<^verbatim>\<open>R\<close>, and a state in which the issuer key of \<^verbatim>\<open>main\<close> owns
  a reserve and created a note of 1000 for the recipient key of \<^verbatim>\<open>main\<close>
  with a signature that the verifier accepts.
\<close>

definition noted_state :: engine_state where
  "noted_state = fst (create_note toy_verify toy_state ''I'' ''R'' 1000 7 ''signed-by-I'')"

definition main_reserves :: "reserve list" where
  "main_reserves =
     [\<lparr>box_id = ''box9'', owner_pubkey = issuer_pub_key_hex, collateral_amount = 800,
       total_debt = 0\<rparr>]"

definition main_noted_state :: engine_state where
  "main_noted_state =
     fst (create_note toy_verify \<lparr>note_store = Map.empty, reserves = main_reserves\<rparr>
            issuer_pub_key_hex recipient_pub_key_hex 1000 7 (''signed-by-'' @ issuer_pub_key_hex))"

text \<open>The redemption request that the body of \<^verbatim>\<open>redemption_data\<close> decodes to.\<close>

definition main_redemption :: "int \<Rightarrow> redemption_request" where
  "main_redemption timestamp =
     \<lparr>req_issuer_pubkey = issuer_pub_key_hex, req_recipient_pubkey = recipient_pub_key_hex,
      req_amount = 500, req_timestamp = timestamp, authorization_signature = None\<rparr>"

text \<open>A listing of the described shape whose reserve belongs to the key of the test.\<close>

definition own_listing :: json where
  "own_listing =
     JObj [(''success'', JBool True),
           (''data'', JList [JObj [(''box_id'', JStr ''box1''),
                                   (''owner_pubkey'', JStr test_pubkey),
                                   (''collateral_amount'', JInt 10),
                                   (''total_debt'', JInt 0)]])]"

text \<open>A created note, as the outcome of a note creation.\<close>

definition toy_note :: iou_note where
  "toy_note =
     \<lparr>issuer_pubkey = ''I'', recipient_pubkey = ''R'', original_amount = 1000,
      remaining_amount = 1000, issued_at = 7, issuer_signature = ''signed-by-I''\<rparr>"

text \<open>A listing of the described shape whose reserve belongs to another key.\<close>

definition foreign_listing :: json where
  "foreign_listing =
     JObj [(''success'', JBool True),
           (''data'', JList [JObj [(''box_id'', JStr ''box1''),
                                   (''owner_pubkey'', JStr ''02aa''),
                                   (''collateral_amount'', JInt 10),
                                   (''total_debt'', JInt 0)]])]"

text \<open>
  Runs of \<^verbatim>\<open>test_reserve_api\<close>: a request that times out, an interrupt
  during the sleep, and a \<^verbatim>\<open>terminate()\<close> that raises.
\<close>

definition timeout_env :: test_env where
  "timeout_env =
     \<lparr>popen_outcome = None, sleep_outcome = None, get_outcome = Inl Timeout,
      terminate_outcome = None, wait_outcome = None\<rparr>"

definition interrupted_sleep_env :: test_env where
  "interrupted_sleep_env =
     \<lparr>popen_outcome = None, sleep_outcome = Some KeyboardInterrupt,
      get_outcome = Inl Timeout, terminate_outcome = None, wait_outcome = None\<rparr>"

definition failing_terminate_env :: test_env where
  "failing_terminate_env =
     \<lparr>popen_outcome = None, sleep_outcome = None, get_outcome = Inl Timeout,
      terminate_outcome = Some OSError, wait_outcome = None\<rparr>"

text \<open>An HTTP library against which every request returns one status.\<close>

definition always_status :: "int \<Rightarrow> unit transport" where
  "always_status status req srv = (Inr \<lparr>status_code = status, response_text = []\<rparr>, srv)"


section \<open>Properties of create_test_note_and_redeem.py\<close>

lemma url_distinct:
  "notes_url \<noteq> redeem_url" "notes_url \<noteq> prepare_url" "redeem_url \<noteq> prepare_url"
  by (simp_all add: notes_url_def redeem_url_def prepare_url_def)

lemma main_posted_notes:
  "posted_to notes_url (fst (main timestamp http srv)) = [JObj (note_data timestamp)]"
  using url_distinct
  by (simp add: main_def Let_def split: prod.splits sum.splits)

text \<open>
  What a run of \<^verbatim>\<open>main\<close> sends, exactly: the creation request; then, when
  it came back with status 200 or 201, the note fetch and, when that returned, the
  redemption request; otherwise the preparation request.
\<close>

lemma main_requests:
  "map fst (fst (main ts http srv)) =
     (case fst (http (note_request ts) srv) of
        Inl e \<Rightarrow> [note_request ts]
      | Inr response \<Rightarrow>
          if status_code response = 200 \<or> status_code response = 201 then
            (case fst (http (Get get_note_url) (snd (http (note_request ts) srv))) of
               Inl e \<Rightarrow> [note_request ts, Get get_note_url]
             | Inr fetched \<Rightarrow>
                 [note_request ts, Get get_note_url,
                  Post redeem_url (JObj (redemption_data ts))])
          else [note_request ts, Post prepare_url (JObj (redemption_prep_data ts))])"
proof (cases "http (note_request ts) srv")
  case (Pair r1 srv1)
  obtain r2 srv2 where g: "http (Get get_note_url) srv1 = (r2, srv2)"
    by (cases "http (Get get_note_url) srv1")
  from Pair [unfolded note_request_def] g show ?thesis
    by (cases r1; cases r2) (auto simp: main_def note_request_def Let_def split: prod.splits)
qed

lemma main_posted_redeem:
  "posted_to redeem_url (fst (main ts http srv)) =
     (case fst (http (note_request ts) srv) of
        Inl e \<Rightarrow> []
      | Inr response \<Rightarrow>
          if status_code response = 200 \<or> status_code response = 201 then
            (case fst (http (Get get_note_url) (snd (http (note_request ts) srv))) of
               Inl e \<Rightarrow> []
             | Inr fetched \<Rightarrow> [JObj (redemption_data ts)])
          else [])"
proof (cases "http (note_request ts) srv")
  case (Pair r1 srv1)
  obtain r2 srv2 where g: "http (Get get_note_url) srv1 = (r2, srv2)"
    by (cases "http (Get get_note_url) srv1")
  from Pair [unfolded note_request_def] g url_distinct show ?thesis
    by (cases r1; cases r2) (auto simp: main_def note_request_def Let_def split: prod.splits)
qed

lemma main_posted_prepare:
  "posted_to prepare_url (fst (main ts http srv)) =
     (case fst (http (note_request ts) srv) of
        Inl e \<Rightarrow> []
      | Inr response \<Rightarrow>
          if status_code response = 200 \<or> status_code response = 201 then []
          else [JObj (redemption_prep_data ts)])"
proof (cases "http (note_request ts) srv")
  case (Pair r1 srv1)
  obtain r2 srv2 where g: "http (Get get_note_url) srv1 = (r2, srv2)"
    by (cases "http (Get get_note_url) srv1")
  from Pair [unfolded note_request_def] g url_distinct show ?thesis
    by (cases r1; cases r2) (auto simp: main_def note_request_def Let_def split: prod.splits)
qed

text \<open>
  C3 (evaluation of the code): the signature string that \<^verbatim>\<open>main\<close> places in the
  note-creation request has 134 hexadecimal characters, that is 67 bytes, not the 130
  characters of a 65-byte signature that the comment on its line announces.
\<close>

theorem signature_length:
  "length signature = 134 \<and> length signature \<noteq> 130 \<and>
   map_of (note_data timestamp) ''signature'' = Some (JStr signature)"
  by (simp add: signature_def note_data_def)

text \<open>
  C6: the dictionary \<^verbatim>\<open>note_data\<close> has exactly the five fields of the
  note-creation input, each once, and it is the one body \<^verbatim>\<open>main\<close> posts to
  \<^verbatim>\<open>/notes\<close>, in every run.
\<close>

theorem note_data_exact_fields:
  "map fst (note_data timestamp) = note_creation_fields \<and>
   set (map fst (note_data timestamp)) = set note_creation_fields \<and>
   distinct (map fst (note_data timestamp)) \<and>
   posted_to notes_url (fst (main timestamp http srv)) = [JObj (note_data timestamp)]"
  using main_posted_notes [of timestamp http srv]
  by (simp add: note_data_def note_creation_fields_def)

text \<open>
  C7: the body of the redemption-preparation request is the body of the redemption
  request with the optional signature field removed: the two dictionaries of
  \<^verbatim>\<open>main\<close> are equal as mappings from field names to values once
  \<^verbatim>\<open>signature\<close> is removed from the redemption one (which has no such field).
  They are the bodies \<^verbatim>\<open>main\<close> posts: \<^verbatim>\<open>redemption_prep_data\<close>
  to \<^verbatim>\<open>/redemption/prepare\<close>, once, exactly when the creation response
  has a status other than 200 and 201; \<^verbatim>\<open>redemption_data\<close> to
  \<^verbatim>\<open>/redeem\<close>, once, exactly when the creation response has status 200 or
  201 and the note fetch returns; and nothing else to either URL.
\<close>

theorem redemption_prep_is_redemption_minus_signature:
  "map_of (redemption_prep_data timestamp) =
     map_of (redemption_data timestamp) |` (- {signature_field}) \<and>
   map_of (redemption_prep_data timestamp) signature_field = None \<and>
   posted_to prepare_url (fst (main timestamp http srv)) =
     (case fst (http (note_request timestamp) srv) of
        Inl e \<Rightarrow> []
      | Inr response \<Rightarrow>
          if status_code response = 200 \<or> status_code response = 201 then []
          else [JObj (redemption_prep_data timestamp)]) \<and>
   posted_to redeem_url (fst (main timestamp http srv)) =
     (case fst (http (note_request timestamp) srv) of
        Inl e \<Rightarrow> []
      | Inr response \<Rightarrow>
          if status_code response = 200 \<or> status_code response = 201 then
            (case fst (http (Get get_note_url) (snd (http (note_request timestamp) srv))) of
               Inl e \<Rightarrow> []
             | Inr fetched \<Rightarrow> [JObj (redemption_data timestamp)])
          else []) \<and>
   posted_to prepare_url (fst (main timestamp (always_status 400) ()))
     = [JObj (redemption_prep_data timestamp)] \<and>
   posted_to redeem_url (fst (main timestamp (always_status 201) ()))
     = [JObj (redemption_data timestamp)]"
proof -
  have m: "map_of (redemption_prep_data timestamp) =
      map_of (redemption_data timestamp) |` (- {signature_field})"
    by (rule ext)
      (simp add: redemption_prep_data_def redemption_data_def signature_field_def
        restrict_map_def)
  have n: "map_of (redemption_prep_data timestamp) signature_field = None"
    by (simp add: redemption_prep_data_def signature_field_def)
  have p: "posted_to prepare_url (fst (main timestamp (always_status 400) ()))
      = [JObj (redemption_prep_data timestamp)]"
    by (simp add: main_posted_prepare always_status_def)
  have r: "posted_to redeem_url (fst (main timestamp (always_status 201) ()))
      = [JObj (redemption_data timestamp)]"
    by (simp add: main_posted_redeem always_status_def)
  from m n p r main_posted_prepare [of timestamp http srv]
    main_posted_redeem [of timestamp http srv]
  show ?thesis by simp
qed

section \<open>Properties of the reserve tracker\<close>

lemma pick_largest_index:
  "pick_largest owner rs = Some i \<Longrightarrow> i < length rs \<and> owner_pubkey (rs ! i) = owner"
proof (induction rs arbitrary: i)
  case Nil
  then show ?case by simp
next
  case (Cons r rs)
  then show ?case by (auto split: option.splits if_splits)
qed

lemma pick_largest_none:
  "pick_largest owner rs = None \<Longrightarrow> list_reserves rs owner = []"
  by (induction rs) (auto simp: list_reserves_def split: option.splits if_splits)

lemma pick_largest_max:
  "pick_largest owner rs = Some i \<Longrightarrow> r \<in> set rs \<Longrightarrow> owner_pubkey r = owner
     \<Longrightarrow> available r \<le> available (rs ! i)"
proof (induction rs arbitrary: i)
  case Nil
  then show ?case by simp
next
  case (Cons x rs)
  show ?case
  proof (cases "pick_largest owner rs")
    case None
    from pick_largest_none [OF None] have "\<And>y. y \<in> set rs \<Longrightarrow> owner_pubkey y \<noteq> owner"
      by (auto simp: list_reserves_def filter_empty_conv)
    with Cons.prems None show ?thesis by (auto split: if_splits)
  next
    case (Some j)
    with Cons show ?thesis by (auto split: if_splits)
  qed
qed

lemma sum_filter_update:
  "i < length xs \<Longrightarrow> P (xs ! i) \<Longrightarrow> P y \<Longrightarrow>
   sum_list (map f (filter P (xs[i := y]))) + f (xs ! i)
     = sum_list (map f (filter P xs)) + (f y :: nat)"
proof (induction xs arbitrary: i)
  case Nil
  then show ?case by simp
next
  case (Cons x xs)
  then show ?case by (cases i) auto
qed

lemma add_debt_simps:
  "owner_pubkey (add_debt r p) = owner_pubkey r"
  "collateral_amount (add_debt r p) = collateral_amount r"
  "box_id (add_debt r p) = box_id r"
  "total_debt (add_debt r p) = total_debt r + p"
  "available (add_debt r p) = available r - p"
  by (simp_all add: add_debt_def available_def)

lemma step_debt:
  assumes "i < length rs" "owner_pubkey (rs ! i) = owner"
  shows "total_debt_sum (rs[i := add_debt (rs ! i) p]) owner = total_debt_sum rs owner + p"
  using sum_filter_update
    [of i rs "\<lambda>r. owner_pubkey r = owner" "add_debt (rs ! i) p" total_debt] assms
  by (simp add: total_debt_sum_def list_reserves_def add_debt_simps)

lemma step_available:
  assumes "i < length rs" "owner_pubkey (rs ! i) = owner" "p \<le> available (rs ! i)"
  shows "available_collateral (rs[i := add_debt (rs ! i) p]) owner + p
     = available_collateral rs owner"
  using sum_filter_update
    [of i rs "\<lambda>r. owner_pubkey r = owner" "add_debt (rs ! i) p" available] assms
  by (simp add: available_collateral_def list_reserves_def add_debt_simps)

lemma available_zero:
  assumes "pick_largest owner rs = Some i" "available (rs ! i) = 0"
  shows "available_collateral rs owner = 0"
proof -
  have "\<forall>r \<in> set (list_reserves rs owner). available r = 0"
    using pick_largest_max [OF assms(1)] assms(2) by (auto simp: list_reserves_def)
  then show ?thesis by (simp add: available_collateral_def)
qed

lemma allocate_zero: "allocate owner 0 rs = rs"
  by (subst allocate.simps) simp

lemma allocate_none:
  "pick_largest owner rs = None \<Longrightarrow> allocate owner amount rs = rs"
  by (subst allocate.simps) simp

lemma allocate_stuck:
  "pick_largest owner rs = Some i \<Longrightarrow> min amount (available (rs ! i)) = 0
     \<Longrightarrow> allocate owner amount rs = rs"
  by (subst allocate.simps) (simp add: Let_def)

lemma allocate_step:
  "pick_largest owner rs = Some i \<Longrightarrow> min amount (available (rs ! i)) \<noteq> 0 \<Longrightarrow>
   allocate owner amount rs =
     allocate owner (amount - min amount (available (rs ! i)))
       (rs[i := add_debt (rs ! i) (min amount (available (rs ! i)))])"
  by (subst allocate.simps) (auto simp add: Let_def)

text \<open>
  An allocation that the free collateral covers raises the owner's debt by exactly the
  amount.
\<close>

lemma allocate_debt:
  "amount \<le> available_collateral rs owner \<Longrightarrow>
   total_debt_sum (allocate owner amount rs) owner = total_debt_sum rs owner + amount"
proof (induction owner amount rs rule: allocate.induct)
  case (1 owner amount rs)
  show ?case
  proof (cases "amount = 0")
    case True
    then show ?thesis by (simp add: allocate_zero)
  next
    case False
    show ?thesis
    proof (cases "pick_largest owner rs")
      case None
      with "1.prems" False show ?thesis
        by (simp add: pick_largest_none available_collateral_def)
    next
      case (Some i)
      let ?p = "min amount (available (rs ! i))"
      have i: "i < length rs" "owner_pubkey (rs ! i) = owner"
        using pick_largest_index [OF Some] by simp_all
      have p0: "?p \<noteq> 0"
        using available_zero [OF Some] "1.prems" False by (auto simp: min_def)
      have pa: "?p \<le> available (rs ! i)" "?p \<le> amount" by simp_all
      let ?rs = "rs[i := add_debt (rs ! i) ?p]"
      have "amount - ?p \<le> available_collateral ?rs owner"
        using step_available [OF i pa(1)] "1.prems" by linarith
      then have "total_debt_sum (allocate owner (amount - ?p) ?rs) owner
          = total_debt_sum ?rs owner + (amount - ?p)"
        using "1.IH" [OF False Some refl p0] by simp
      then show ?thesis
        using pa step_debt [OF i, of ?p] allocate_step [OF Some p0] by simp
    qed
  qed
qed

lemma debt_raised_refl: "debt_raised r r"
  by (simp add: debt_raised_def)

lemma debt_raised_trans: "debt_raised a b \<Longrightarrow> debt_raised b c \<Longrightarrow> debt_raised a c"
  by (auto simp: debt_raised_def)

lemma debt_raised_add: "p \<le> available r \<Longrightarrow> debt_raised r (add_debt r p)"
  by (cases "p = 0") (auto simp: debt_raised_def add_debt_def available_def)

lemma same_raised: "list_all2 debt_raised rs rs"
  by (simp add: list_all2_same debt_raised_refl)

lemma raised_trans:
  "list_all2 debt_raised xs ys \<Longrightarrow> list_all2 debt_raised ys zs \<Longrightarrow> list_all2 debt_raised xs zs"
  using list_all2_trans [of debt_raised debt_raised debt_raised xs ys zs] debt_raised_trans
  by blast

lemma allocate_raises: "list_all2 debt_raised rs (allocate owner amount rs)"
proof (induction owner amount rs rule: allocate.induct)
  case (1 owner amount rs)
  show ?case
  proof (cases "amount = 0")
    case True
    then show ?thesis using same_raised by (simp add: allocate_zero)
  next
    case False
    show ?thesis
    proof (cases "pick_largest owner rs")
      case None
      then show ?thesis using same_raised by (simp add: allocate_none)
    next
      case (Some i)
      let ?p = "min amount (available (rs ! i))"
      show ?thesis
      proof (cases "?p = 0")
        case True
        then show ?thesis using same_raised allocate_stuck [OF Some] by simp
      next
        case p0: False
        let ?rs = "rs[i := add_debt (rs ! i) ?p]"
        have "list_all2 debt_raised (rs[i := rs ! i]) ?rs"
          by (rule list_all2_update_cong [OF same_raised]) (simp add: debt_raised_add)
        then have a: "list_all2 debt_raised rs ?rs" by simp
        have b: "list_all2 debt_raised ?rs (allocate owner (amount - ?p) ?rs)"
          using "1.IH" [OF False Some refl p0] by simp
        from raised_trans [OF a b] show ?thesis using allocate_step [OF Some p0] by simp
      qed
    qed
  qed
qed

lemma raised_ok:
  "list_all2 debt_raised rs rs' \<Longrightarrow> reserves_ok rs \<Longrightarrow> reserves_ok rs'"
  unfolding reserves_ok_def
  by (induction rule: list_all2_induct) (auto simp: debt_raised_def)

lemma raised_touched:
  "list_all2 debt_raised rs rs' \<Longrightarrow>
     list_all (\<lambda>r. total_debt r \<le> collateral_amount r) (touched rs rs')"
  by (induction rule: list_all2_induct) (auto simp: debt_raised_def touched_def)

lemma ok_sums: "reserves_ok rs \<Longrightarrow> total_debt_sum rs owner \<le> collateral_sum rs owner"
  unfolding reserves_ok_def total_debt_sum_def collateral_sum_def list_reserves_def
  by (induction rs) (auto simp: add_mono)

section \<open>Properties of the engine\<close>

lemma create_note_reserves:
  "reserves (fst (create_note verify s issuer recipient amount t sg)) = reserves s"
  by (simp add: create_note_def Let_def)

lemma redeem_raises:
  "list_all2 debt_raised (reserves s) (reserves (fst (redeem verify s req)))"
  using allocate_raises [of "reserves s"] same_raised [of "reserves s"]
  by (simp add: redeem_def debit_def increase_debt_def Let_def
      split: option.splits sum.splits prod.splits)

lemma apply_raises:
  "list_all2 debt_raised (reserves s) (reserves (apply_operation verify s op))"
  by (cases op) (simp_all add: create_note_reserves same_raised redeem_raises)

lemma run_raises: "list_all2 debt_raised (reserves s) (reserves (run verify s ops))"
  unfolding run_def
proof (induction ops arbitrary: s)
  case Nil
  show ?case by (simp add: same_raised)
next
  case (Cons op ops)
  from raised_trans [OF apply_raises Cons.IH] show ?case by simp
qed

lemma listing_ok:
  "reserves_ok rs \<Longrightarrow> list_all json_reserve_ok (map reserve_json (list_reserves rs pubkey))"
  unfolding reserves_ok_def list_reserves_def
  by (induction rs) (auto simp: json_reserve_ok_def reserve_json_def)

lemma redeem_unauthorized:
  assumes "\<not> authorized verify req"
  shows "redeem verify s req =
     (s, Inl (case get_note s (req_issuer_pubkey req) (req_recipient_pubkey req) of
                None \<Rightarrow> NoteNotFound
              | Some n \<Rightarrow>
                  if 0 < req_amount req \<and> req_amount req \<le> remaining_amount n
                  then Unauthorized else InsufficientBalance))"
  using assms by (simp add: redeem_def split: option.splits)

lemma created_note:
  assumes "create_note verify s issuer recipient amount t sg = (s1, Inr n)"
  shows "get_note s1 issuer recipient = Some n \<and> remaining_amount n = amount \<and>
         0 < amount \<and> reserves s1 = reserves s"
  using assms by (auto simp: create_note_def get_note_def Let_def split: if_splits)

lemma main_redemption_unauthorized: "\<not> authorized verify (main_redemption t)"
  by (simp add: authorized_def main_redemption_def)

lemma decode_redemption_data:
  "decode_redemption (JObj (redemption_data t)) = Some (main_redemption t)"
  by (simp add: redemption_data_def main_redemption_def)

lemma decode_note_data:
  "decode_note_creation (JObj (note_data t)) =
     Some (issuer_pub_key_hex, recipient_pub_key_hex, 1000, t, signature)"
  by (simp add: note_data_def)

lemma redeem_success:
  assumes present: "get_note s (req_issuer_pubkey req) (req_recipient_pubkey req) = Some n"
    and amount: "0 < req_amount req" "req_amount req \<le> remaining_amount n"
    and auth: "authorized verify req"
    and coll: "req_amount req \<le> available_collateral (reserves s) (req_issuer_pubkey req)"
  shows "redeem verify s req =
     (s\<lparr>note_store := (note_store s)
           ((req_issuer_pubkey req, req_recipient_pubkey req) \<mapsto>
              n\<lparr>remaining_amount := remaining_amount n - req_amount req\<rparr>),
        reserves := allocate (req_issuer_pubkey req) (req_amount req) (reserves s)\<rparr>,
      Inr \<lparr>new_remaining_amount = remaining_amount n - req_amount req,
           reserves_touched =
             touched (reserves s) (allocate (req_issuer_pubkey req) (req_amount req) (reserves s)),
           redemption_id = redemption_message req\<rparr>)"
  using assms
  by (simp add: redeem_def debit_def increase_debt_def get_note_def Let_def)

section \<open>The claims about the engine\<close>



text \<open>
  C2: from a state whose reserves are over-collateralized, every run of committed
  operations (note creations and redemptions, accepted or rejected) ends in a state
  where every reserve has \<^verbatim>\<open>total_debt\<close> at most
  \<^verbatim>\<open>collateral_amount\<close>, where the sums over the reserves of any issuer are
  ordered the same way, and where every element of the listing returned for an issuer
  has a \<^verbatim>\<open>total_debt\<close> field at most its \<^verbatim>\<open>collateral_amount\<close>
  field.
\<close>

theorem reserves_stay_collateralized:
  assumes "reserves_ok (reserves s)"
  shows "reserves_ok (reserves (run verify s ops)) \<and>
     total_debt_sum (reserves (run verify s ops)) issuer
       \<le> collateral_sum (reserves (run verify s ops)) issuer \<and>
     list_all json_reserve_ok (response_data (reserves_response (run verify s ops) issuer))"
proof -
  have ok: "reserves_ok (reserves (run verify s ops))"
    using raised_ok [OF run_raises assms] .
  from ok_sums [OF ok] listing_ok [OF ok] ok show ?thesis
    by (simp add: reserves_response_def)
qed

theorem reserves_stay_collateralized_witness:
  "reserves_ok (reserves toy_state) \<and>
   reserves_ok (reserves (run toy_verify toy_state
      [CreateNote ''I'' ''R'' 1000 7 ''signed-by-I'',
       Redeem (toy_redemption (Some ''signed-by-R''))])) \<and>
   map total_debt (reserves (run toy_verify toy_state
      [CreateNote ''I'' ''R'' 1000 7 ''signed-by-I'',
       Redeem (toy_redemption (Some ''signed-by-R''))])) = [300, 300, 0] \<and>
   map collateral_amount (reserves (run toy_verify toy_state
      [CreateNote ''I'' ''R'' 1000 7 ''signed-by-I'',
       Redeem (toy_redemption (Some ''signed-by-R''))])) = [300, 400, 50] \<and>
   total_debt_sum (reserves (run toy_verify toy_state
      [CreateNote ''I'' ''R'' 1000 7 ''signed-by-I'',
       Redeem (toy_redemption (Some ''signed-by-R''))])) ''I''
     \<le> collateral_sum (reserves (run toy_verify toy_state
      [CreateNote ''I'' ''R'' 1000 7 ''signed-by-I'',
       Redeem (toy_redemption (Some ''signed-by-R''))])) ''I''"
proof -
  let ?ops = "[CreateNote ''I'' ''R'' 1000 7 ''signed-by-I'',
     Redeem (toy_redemption (Some ''signed-by-R''))]"
  have h: "reserves_ok (reserves toy_state)"
    by (simp add: reserves_ok_def toy_state_def toy_reserves_def)
  have e: "reserves (run toy_verify toy_state ?ops) =
     [\<lparr>box_id = ''box1'', owner_pubkey = ''I'', collateral_amount = 300, total_debt = 300\<rparr>,
      \<lparr>box_id = ''box2'', owner_pubkey = ''I'', collateral_amount = 400, total_debt = 300\<rparr>,
      \<lparr>box_id = ''box3'', owner_pubkey = ''J'', collateral_amount = 50, total_debt = 0\<rparr>]"
    by (simp add: run_def create_note_def get_note_def toy_state_def toy_verify_def Let_def
        redeem_def toy_redemption_def authorized_def redemption_message_def
        available_collateral_def list_reserves_def toy_reserves_def available_def
        debit_def increase_debt_def allocate.simps add_debt_def)
  from reserves_stay_collateralized [OF h, of toy_verify ?ops "''I''"]
  have "reserves_ok (reserves (run toy_verify toy_state ?ops)) \<and>
     total_debt_sum (reserves (run toy_verify toy_state ?ops)) ''I''
       \<le> collateral_sum (reserves (run toy_verify toy_state ?ops)) ''I''"
    by blast
  with h show ?thesis by (simp add: e)
qed

text \<open>
  C5, as amended: for a note created with amount 1000, a subsequent redemption of 500
  that is authorized succeeds when the issuer's available collateral is at least 500;
  then \<^verbatim>\<open>remaining_amount\<close> becomes 500, the issuer's total debt
  increases by exactly 500, and every reserve that was touched keeps its
  \<^verbatim>\<open>total_debt\<close> within its \<^verbatim>\<open>collateral_amount\<close>. The script
  \<^verbatim>\<open>main\<close> sends the creation request of amount 1000 and then, exactly when
  the creation response has status 200 or 201 and the note fetch returns, one
  redemption request of amount 500 for the same issuer and recipient (otherwise the
  preparation request, or nothing more); that request has no signature field, so it is
  not an authorized redemption: where the note has its 1000 remaining it is rejected as
  \<^verbatim>\<open>Unauthorized\<close> and the state stays as it was.
\<close>

theorem create_then_redeem_half:
  "(create_note verify s issuer recipient 1000 t sg = (s1, Inr n) \<and>
    req_issuer_pubkey req = issuer \<and> req_recipient_pubkey req = recipient \<and>
    req_amount req = 500 \<and> authorized verify req \<and>
    500 \<le> available_collateral (reserves s1) issuer \<longrightarrow>
      (\<exists>s2 rc. redeem verify s1 req = (s2, Inr rc) \<and>
         new_remaining_amount rc = 500 \<and>
         map_option remaining_amount (get_note s2 issuer recipient) = Some 500 \<and>
         total_debt_sum (reserves s2) issuer = total_debt_sum (reserves s1) issuer + 500 \<and>
         list_all (\<lambda>r. total_debt r \<le> collateral_amount r) (reserves_touched rc))) \<and>
   map fst (fst (main ts http srv)) =
     (case fst (http (note_request ts) srv) of
        Inl e \<Rightarrow> [note_request ts]
      | Inr response \<Rightarrow>
          if status_code response = 200 \<or> status_code response = 201 then
            (case fst (http (Get get_note_url) (snd (http (note_request ts) srv))) of
               Inl e \<Rightarrow> [note_request ts, Get get_note_url]
             | Inr fetched \<Rightarrow>
                 [note_request ts, Get get_note_url,
                  Post redeem_url (JObj (redemption_data ts))])
          else [note_request ts, Post prepare_url (JObj (redemption_prep_data ts))]) \<and>
   note_request ts = Post notes_url (JObj (note_data ts)) \<and>
   decode_note_creation (JObj (note_data ts)) =
     Some (issuer_pub_key_hex, recipient_pub_key_hex, 1000, ts, signature) \<and>
   map_of (redemption_data ts) signature_field = None \<and>
   decode_redemption (JObj (redemption_data ts)) = Some (main_redemption ts) \<and>
   req_issuer_pubkey (main_redemption ts) = issuer_pub_key_hex \<and>
   req_recipient_pubkey (main_redemption ts) = recipient_pub_key_hex \<and>
   req_amount (main_redemption ts) = 500 \<and>
   authorization_signature (main_redemption ts) = None \<and>
   \<not> authorized verify (main_redemption ts) \<and>
   (get_note s3 issuer_pub_key_hex recipient_pub_key_hex = Some n3 \<and>
    remaining_amount n3 = 1000 \<longrightarrow>
      redeem verify s3 (main_redemption ts) = (s3, Inl Unauthorized))"
proof -
  have a: "\<exists>s2 rc. redeem verify s1 req = (s2, Inr rc) \<and>
         new_remaining_amount rc = 500 \<and>
         map_option remaining_amount (get_note s2 issuer recipient) = Some 500 \<and>
         total_debt_sum (reserves s2) issuer = total_debt_sum (reserves s1) issuer + 500 \<and>
         list_all (\<lambda>r. total_debt r \<le> collateral_amount r) (reserves_touched rc)"
    if c: "create_note verify s issuer recipient 1000 t sg = (s1, Inr n)"
      and r: "req_issuer_pubkey req = issuer" "req_recipient_pubkey req = recipient"
        "req_amount req = 500"
      and auth: "authorized verify req"
      and coll: "500 \<le> available_collateral (reserves s1) issuer"
  proof -
    from created_note [OF c]
    have n: "get_note s1 issuer recipient = Some n" "remaining_amount n = 1000" by simp_all
    have "redeem verify s1 req =
       (s1\<lparr>note_store := (note_store s1)
             ((issuer, recipient) \<mapsto> n\<lparr>remaining_amount := remaining_amount n - 500\<rparr>),
           reserves := allocate issuer 500 (reserves s1)\<rparr>,
        Inr \<lparr>new_remaining_amount = remaining_amount n - 500,
             reserves_touched = touched (reserves s1) (allocate issuer 500 (reserves s1)),
             redemption_id = redemption_message req\<rparr>)"
      using redeem_success [of s1 req n verify] n r auth coll by simp
    moreover have "total_debt_sum (allocate issuer 500 (reserves s1)) issuer
        = total_debt_sum (reserves s1) issuer + 500"
      using allocate_debt [OF coll] .
    moreover have "list_all (\<lambda>r. total_debt r \<le> collateral_amount r)
        (touched (reserves s1) (allocate issuer 500 (reserves s1)))"
      using raised_touched [OF allocate_raises] .
    ultimately show ?thesis using n by (simp add: get_note_def)
  qed
  have u: "redeem verify s3 (main_redemption ts) = (s3, Inl Unauthorized)"
    if "get_note s3 issuer_pub_key_hex recipient_pub_key_hex = Some n3"
      and "remaining_amount n3 = 1000"
    using redeem_unauthorized
      [of verify "main_redemption ts" s3, OF main_redemption_unauthorized] that
    by (simp add: main_redemption_def)
  have f: "req_issuer_pubkey (main_redemption ts) = issuer_pub_key_hex"
    "req_recipient_pubkey (main_redemption ts) = recipient_pub_key_hex"
    "req_amount (main_redemption ts) = 500"
    "authorization_signature (main_redemption ts) = None"
    by (simp_all add: main_redemption_def)
  have d: "map_of (redemption_data ts) signature_field = None"
    by (simp add: redemption_data_def signature_field_def)
  from a u f d main_requests [of ts http srv] note_request_def [of ts]
    decode_note_data [of ts] decode_redemption_data [of ts]
    main_redemption_unauthorized [of verify ts]
  show ?thesis by blast
qed

theorem create_then_redeem_half_witness:
  "snd (create_note toy_verify toy_state ''I'' ''R'' 1000 7 ''signed-by-I'') = Inr toy_note \<and>
   authorized toy_verify (toy_redemption (Some ''signed-by-R'')) \<and>
   500 \<le> available_collateral (reserves noted_state) ''I'' \<and>
   (\<exists>s2 rc.
      redeem toy_verify noted_state (toy_redemption (Some ''signed-by-R'')) = (s2, Inr rc) \<and>
      new_remaining_amount rc = 500 \<and>
      map_option remaining_amount (get_note s2 ''I'' ''R'') = Some 500 \<and>
      total_debt_sum (reserves s2) ''I'' = 600) \<and>
   map_option remaining_amount
     (get_note main_noted_state issuer_pub_key_hex recipient_pub_key_hex) = Some 1000 \<and>
   redeem toy_verify main_noted_state (main_redemption 7)
     = (main_noted_state, Inl Unauthorized) \<and>
   map fst (fst (main 7 (always_status 201) ())) =
     [Post notes_url (JObj (note_data 7)), Get get_note_url,
      Post redeem_url (JObj (redemption_data 7))]"
proof -
  let ?c = "create_note toy_verify toy_state ''I'' ''R'' 1000 7 ''signed-by-I''"
  let ?r = "toy_redemption (Some ''signed-by-R'')"
  let ?m = "\<lparr>issuer_pubkey = issuer_pub_key_hex, recipient_pubkey = recipient_pub_key_hex,
     original_amount = 1000, remaining_amount = 1000, issued_at = 7,
     issuer_signature = ''signed-by-'' @ issuer_pub_key_hex\<rparr>"
  have c: "snd ?c = Inr toy_note"
    by (simp add: create_note_def get_note_def toy_state_def toy_verify_def toy_note_def Let_def)
  then have c': "?c = (noted_state, Inr toy_note)"
    unfolding noted_state_def by (metis prod.collapse)
  have rs: "reserves noted_state = toy_reserves"
    by (simp add: noted_state_def create_note_reserves toy_state_def)
  have auth: "authorized toy_verify ?r"
    by (simp add: authorized_def toy_redemption_def toy_verify_def)
  have coll: "500 \<le> available_collateral (reserves noted_state) ''I''"
    by (simp add: rs available_collateral_def list_reserves_def toy_reserves_def available_def)
  have d: "total_debt_sum (reserves noted_state) ''I'' = 100"
    by (simp add: rs total_debt_sum_def list_reserves_def toy_reserves_def)
  have f: "req_issuer_pubkey ?r = ''I''" "req_recipient_pubkey ?r = ''R''" "req_amount ?r = 500"
    by (simp_all add: toy_redemption_def)
  have m: "get_note main_noted_state issuer_pub_key_hex recipient_pub_key_hex = Some ?m"
    by (simp add: main_noted_state_def create_note_def get_note_def toy_verify_def Let_def)
  have k: "always_status 201 (note_request 7) ()
      = (Inr \<lparr>status_code = 201, response_text = []\<rparr>, ())"
    "always_status 201 (Get get_note_url) ()
      = (Inr \<lparr>status_code = 201, response_text = []\<rparr>, ())"
    by (simp_all add: always_status_def)
  note t = create_then_redeem_half
    [of toy_verify toy_state "''I''" "''R''" 7 "''signed-by-I''" noted_state toy_note ?r 7
      "always_status 201" "()" main_noted_state ?m]
  from t c' f auth coll
  have x: "\<exists>s2 rc. redeem toy_verify noted_state ?r = (s2, Inr rc) \<and>
      new_remaining_amount rc = 500 \<and>
      map_option remaining_amount (get_note s2 ''I'' ''R'') = Some 500 \<and>
      total_debt_sum (reserves s2) ''I'' = total_debt_sum (reserves noted_state) ''I'' + 500"
    by blast
  from t m
  have y: "redeem toy_verify main_noted_state (main_redemption 7)
      = (main_noted_state, Inl Unauthorized)"
    by simp
  from t k
  have z: "map fst (fst (main 7 (always_status 201) ())) =
     [Post notes_url (JObj (note_data 7)), Get get_note_url,
      Post redeem_url (JObj (redemption_data 7))]"
    by simp
  from x y z c auth coll d m show ?thesis by simp
qed

text \<open>
  C5 as stated fails on both counts. The redemption request of \<^verbatim>\<open>main\<close>
  has no signature field: where the note of 1000 exists and the issuer has collateral,
  the request that \<^verbatim>\<open>main\<close> posts after an accepted creation is rejected as
  \<^verbatim>\<open>Unauthorized\<close> and the remaining amount stays 1000. And an issuer
  without reserves has a note of 1000 created, and the authorized redemption of 500 is
  rejected as \<^verbatim>\<open>InsufficientCollateral\<close>.
\<close>

theorem create_then_redeem_half_counterexample:
  "map_of (redemption_data 7) ''signature'' = None \<and>
   posted_to redeem_url (fst (main 7 (always_status 201) ())) = [JObj (redemption_data 7)] \<and>
   decode_redemption (JObj (redemption_data 7)) = Some (main_redemption 7) \<and>
   map_option remaining_amount
     (get_note main_noted_state issuer_pub_key_hex recipient_pub_key_hex) = Some 1000 \<and>
   500 \<le> available_collateral (reserves main_noted_state) issuer_pub_key_hex \<and>
   redeem toy_verify main_noted_state (main_redemption 7)
     = (main_noted_state, Inl Unauthorized) \<and>
   snd (create_note toy_verify bare_state ''I'' ''R'' 1000 7 ''signed-by-I'') = Inr toy_note \<and>
   authorized toy_verify (toy_redemption (Some ''signed-by-I'')) \<and>
   snd (redeem toy_verify
          (fst (create_note toy_verify bare_state ''I'' ''R'' 1000 7 ''signed-by-I''))
          (toy_redemption (Some ''signed-by-I'')))
     = Inl InsufficientCollateral"
proof -
  have a: "map_of (redemption_data 7) ''signature'' = None"
    by (simp add: redemption_data_def)
  have b: "posted_to redeem_url (fst (main 7 (always_status 201) ())) = [JObj (redemption_data 7)]"
    by (simp add: main_posted_redeem always_status_def)
  have c: "map_option remaining_amount
     (get_note main_noted_state issuer_pub_key_hex recipient_pub_key_hex) = Some 1000"
    by (simp add: main_noted_state_def create_note_def get_note_def toy_verify_def Let_def)
  have d: "500 \<le> available_collateral (reserves main_noted_state) issuer_pub_key_hex"
    by (simp add: main_noted_state_def create_note_reserves available_collateral_def
        list_reserves_def main_reserves_def available_def)
  have e: "redeem toy_verify main_noted_state (main_redemption 7)
     = (main_noted_state, Inl Unauthorized)"
    by (simp add: redeem_def main_redemption_def authorized_def main_noted_state_def
        create_note_def get_note_def toy_verify_def Let_def)
  have f: "snd (create_note toy_verify bare_state ''I'' ''R'' 1000 7 ''signed-by-I'') = Inr toy_note \<and>
     authorized toy_verify (toy_redemption (Some ''signed-by-I'')) \<and>
     snd (redeem toy_verify
            (fst (create_note toy_verify bare_state ''I'' ''R'' 1000 7 ''signed-by-I''))
            (toy_redemption (Some ''signed-by-I'')))
       = Inl InsufficientCollateral"
    by (simp add: create_note_def get_note_def bare_state_def toy_verify_def Let_def
        toy_note_def authorized_def toy_redemption_def redeem_def
        available_collateral_def list_reserves_def)
  from a b c d e f decode_redemption_data [of 7] show ?thesis by simp
qed

section \<open>The claims about the scripts and the interface\<close>

text \<open>
  C4: the note-creation operation answers with status 201 for a created note, 409
  for a duplicate and 400 for a validation or signature failure, and with no other
  status; so creation success is status 201 exactly. After the POST to
  \<^verbatim>\<open>/notes\<close>, \<^verbatim>\<open>main\<close> takes its success branch (the one
  that goes on to fetch the note) exactly when a response came back with status 200 or
  201; against a server whose \<^verbatim>\<open>POST /notes\<close> is that operation, the
  response to the request of \<^verbatim>\<open>main\<close> carries the status of the creation
  outcome, and \<^verbatim>\<open>main\<close> takes its success branch exactly when the note was
  created.
\<close>

theorem note_creation_status_and_main:
  "note_creation_status (snd (create_note verify s issuer recipient amount t sg)) =
     (if amount = 0 then 400
      else if get_note s issuer recipient \<noteq> None then 409
      else if verify issuer (issuer, recipient, amount, t) sg then 201
      else 400) \<and>
   note_creation_status outcome \<in> {201, 400, 409} \<and>
   (note_creation_status outcome = 201) = (\<exists>n. outcome = Inr n) \<and>
   (note_creation_status outcome = 409) = (outcome = Inl DuplicateNote) \<and>
   (note_creation_status outcome = 400) = (\<exists>e. outcome = Inl e \<and> e \<noteq> DuplicateNote) \<and>
   (Get get_note_url \<in> set (map fst (fst (main ts http srv)))) =
     (case fst (http (note_request ts) srv) of
        Inl e \<Rightarrow> False
      | Inr response \<Rightarrow> status_code response = 200 \<or> status_code response = 201) \<and>
   fst (spec_server verify render others (note_request ts) s) =
     Inr \<lparr>status_code =
            note_creation_status
              (snd (create_note verify s issuer_pub_key_hex recipient_pub_key_hex 1000 ts
                      signature)),
          response_text =
            render (Some (snd (create_note verify s issuer_pub_key_hex recipient_pub_key_hex
                                 1000 ts signature)))\<rparr> \<and>
   (Get get_note_url \<in> set (map fst (fst (main ts (spec_server verify render others) s)))) =
     (\<exists>n. snd (create_note verify s issuer_pub_key_hex recipient_pub_key_hex 1000 ts signature)
            = Inr n)"
proof -
  let ?o = "snd (create_note verify s issuer_pub_key_hex recipient_pub_key_hex 1000 ts signature)"
  have a: "note_creation_status (snd (create_note verify s issuer recipient amount t sg)) =
     (if amount = 0 then 400
      else if get_note s issuer recipient \<noteq> None then 409
      else if verify issuer (issuer, recipient, amount, t) sg then 201
      else 400)"
    by (simp add: create_note_def note_creation_status_def Let_def)
  have b: "note_creation_status outcome \<in> {201, 400, 409}"
    "(note_creation_status outcome = 201) = (\<exists>n. outcome = Inr n)"
    "(note_creation_status outcome = 409) = (outcome = Inl DuplicateNote)"
    "(note_creation_status outcome = 400) = (\<exists>e. outcome = Inl e \<and> e \<noteq> DuplicateNote)"
    by (auto simp: note_creation_status_def split: sum.splits error.splits)
  have c: "(Get get_note_url \<in> set (map fst (fst (main ts h v)))) =
     (case fst (h (note_request ts) v) of
        Inl e \<Rightarrow> False
      | Inr response \<Rightarrow> status_code response = 200 \<or> status_code response = 201)"
    for h :: "'x transport" and v
    by (simp add: main_requests note_request_def split: sum.splits)
  have d: "fst (spec_server verify render others (note_request ts) s) =
     Inr \<lparr>status_code = note_creation_status ?o, response_text = render (Some ?o)\<rparr>"
    by (simp add: spec_server_def notes_endpoint_def note_request_def decode_note_data
        del: decode_note_creation.simps split: prod.splits)
  have s201: "(note_creation_status ?o = 201) = (\<exists>n. ?o = Inr n)"
    and s200: "note_creation_status ?o \<noteq> 200"
    by (auto simp: note_creation_status_def split: sum.splits error.splits)
  have e: "(Get get_note_url \<in> set (map fst (fst (main ts (spec_server verify render others) s))))
      = (\<exists>n. ?o = Inr n)"
  proof -
    from c [of "spec_server verify render others" s] d
    have "(Get get_note_url
        \<in> set (map fst (fst (main ts (spec_server verify render others) s))))
      = (note_creation_status ?o = 200 \<or> note_creation_status ?o = 201)"
      by (simp del: set_map)
    with s201 s200 show ?thesis by blast
  qed
  from a b c [of http srv] d e show ?thesis by blast
qed

lemma key_in_dom: "map_of kvs k = Some v \<Longrightarrow> k \<in> fst ` set kvs"
  by (auto dest!: map_of_SomeD intro: rev_image_eqI)

lemma conforming_reserve_check:
  assumes "conforming_reserve r"
  shows "check_reserve pubkey r =
     (if py_getitem r ''owner_pubkey'' = Inr (JStr pubkey) then Inr ()
      else Inl (AssertionError 46))"
proof (cases r)
  case (JObj kvs)
  with assms have k: "''box_id'' \<in> fst ` set kvs" "''owner_pubkey'' \<in> fst ` set kvs"
    "''collateral_amount'' \<in> fst ` set kvs" "''total_debt'' \<in> fst ` set kvs"
    by (simp_all add: reserve_fields_def)
  from k(2) obtain v where v: "map_of kvs ''owner_pubkey'' = Some v"
    by (metis map_of_eq_None_iff not_None_eq)
  show ?thesis using k v JObj
    by (simp add: check_reserve_def and_then_def py_assert_def)
qed (use assms in simp_all)

lemma conforming_response_check:
  assumes "conforming_response data"
  shows "check_response pubkey data =
     (if first_owner_is pubkey data then Inr () else Inl (AssertionError 46))"
proof (cases data)
  case (JObj kvs)
  with assms obtain xs where s: "map_of kvs ''success'' = Some (JBool True)"
    and d: "map_of kvs ''data'' = Some (JList xs)" and a: "list_all conforming_reserve xs"
    by (auto split: option.splits json.splits)
  from d have m: "''data'' \<in> fst ` set kvs" by (rule key_in_dom)
  show ?thesis
  proof (cases xs)
    case Nil
    then show ?thesis using JObj s d m
      by (simp add: check_response_def and_then_def py_assert_def)
  next
    case (Cons r rs)
    with a have "conforming_reserve r" by simp
    from conforming_reserve_check [OF this, of pubkey] show ?thesis using JObj s d m Cons
      by (simp add: check_response_def and_then_def py_assert_def)
  qed
qed (use assms in simp_all)

text \<open>
  C8, as amended: for a response of the described shape (an object with
  \<^verbatim>\<open>success\<close> true and \<^verbatim>\<open>data\<close> a list of objects that each carry
  the four fields), the assertions of lines 36 to 45 of \<^verbatim>\<open>test_reserve_api\<close>
  all hold; the assertion of line 46 holds exactly when the list is empty or the
  \<^verbatim>\<open>owner_pubkey\<close> of its first element is the requested key, which the shape
  does not promise.
\<close>

theorem conforming_response_assertions:
  "conforming_response data \<longrightarrow>
     check_response pubkey data =
       (if first_owner_is pubkey data then Inr () else Inl (AssertionError 46))"
  using conforming_response_check by blast

theorem conforming_response_assertions_witness:
  "conforming_response own_listing \<and>
   first_owner_is test_pubkey own_listing \<and>
   check_response test_pubkey own_listing = Inr ()"
proof -
  have c: "conforming_response own_listing"
    by (simp add: own_listing_def reserve_fields_def)
  have f: "first_owner_is test_pubkey own_listing"
    by (simp add: own_listing_def)
  from conforming_response_assertions [of own_listing test_pubkey] c f
  show ?thesis by simp
qed

text \<open>
  C8 as stated fails: a response of the described shape whose first reserve belongs to
  another key fails the assertion of line 46.
\<close>

theorem conforming_response_assertions_counterexample:
  "conforming_response foreign_listing \<and>
   check_response test_pubkey foreign_listing = Inl (AssertionError 46)"
  by (simp add: foreign_listing_def reserve_fields_def check_response_def check_reserve_def
      and_then_def py_assert_def test_pubkey_def)

text \<open>
  C10, as amended: on every path of \<^verbatim>\<open>test_reserve_api\<close> on which
  \<^verbatim>\<open>time.sleep(3)\<close> returns and the two calls of the
  \<^verbatim>\<open>finally\<close> block do not raise themselves, the spawned process is
  terminated and waited on as the last two calls of the function, whatever happens
  inside the \<^verbatim>\<open>try\<close> block (normal completion, a failed assertion, a request
  timeout, or an exception that \<^verbatim>\<open>except Exception\<close> does not catch).
\<close>

theorem finally_stops_child:
  "popen_outcome env = None \<and> sleep_outcome env = None \<and>
   terminate_outcome env = None \<and> wait_outcome env = None \<longrightarrow>
     child_stopped (fst (test_reserve_api env)) \<and>
     (\<exists>before. fst (test_reserve_api env) = [Spawned, Slept] @ before @ [Terminated, Waited])"
  by (simp add: test_reserve_api_def child_stopped_def Let_def split: prod.splits sum.splits)

theorem finally_stops_child_witness:
  "popen_outcome timeout_env = None \<and> sleep_outcome timeout_env = None \<and>
   terminate_outcome timeout_env = None \<and> wait_outcome timeout_env = None \<and>
   child_stopped (fst (test_reserve_api timeout_env)) \<and>
   test_reserve_api timeout_env
     = ([Spawned, Slept, PrintedFailed Timeout, Terminated, Waited], Inr ())"
proof -
  have h: "popen_outcome timeout_env = None \<and> sleep_outcome timeout_env = None \<and>
     terminate_outcome timeout_env = None \<and> wait_outcome timeout_env = None"
    by (simp add: timeout_env_def)
  have e: "test_reserve_api timeout_env
     = ([Spawned, Slept, PrintedFailed Timeout, Terminated, Waited], Inr ())"
    by (simp add: test_reserve_api_def try_body_def timeout_env_def)
  from finally_stops_child [of timeout_env] h e show ?thesis by blast
qed

text \<open>
  C10 as stated fails: an interrupt during the sleep, after the process was spawned,
  leaves the function with the process neither terminated nor waited on; so does a
  \<^verbatim>\<open>terminate()\<close> that raises.
\<close>

theorem finally_stops_child_counterexample:
  "test_reserve_api interrupted_sleep_env = ([Spawned], Inl KeyboardInterrupt) \<and>
   \<not> child_stopped (fst (test_reserve_api interrupted_sleep_env)) \<and>
   test_reserve_api failing_terminate_env
     = ([Spawned, Slept, PrintedFailed Timeout], Inl OSError) \<and>
   \<not> child_stopped (fst (test_reserve_api failing_terminate_env))"
  by (simp add: test_reserve_api_def try_body_def interrupted_sleep_env_def
      failing_terminate_env_def child_stopped_def)


end
